theory Spec2Isabelle
  imports Main
begin

section \<open>The rules-engine service of \<^verbatim>\<open>re/service.go\<close>\<close>

text \<open>
  A Go \<^verbatim>\<open>string\<close> is a sequence of bytes, here a \<^typ>\<open>string\<close> (a list of 8-bit
  characters). A Go \<^verbatim>\<open>int\<close> that only ever holds a length, an index or an HTTP status
  is an \<^typ>\<open>int\<close>. An \<^verbatim>\<open>error\<close> value that comes from a collaborator or from the
  standard library is kept as its message.
\<close>

type_synonym go_error = string

subsection \<open>Functions of Go's standard library that service.go calls\<close>

definition byte :: "char \<Rightarrow> nat" where
  "byte c = of_char c"

text \<open>\<^verbatim>\<open>strings.HasPrefix\<close>.\<close>

definition HasPrefix :: "string \<Rightarrow> string \<Rightarrow> bool" where
  "HasPrefix s p = (take (length p) s = p)"

text \<open>\<^verbatim>\<open>strings.Contains\<close>: \<open>sub\<close> occurs somewhere in \<open>s\<close>.\<close>

fun Contains :: "string \<Rightarrow> string \<Rightarrow> bool" where
  "Contains [] sub = (sub = [])"
| "Contains (c # cs) sub = (HasPrefix (c # cs) sub \<or> Contains cs sub)"

text \<open>
  \<^verbatim>\<open>strings.Replace(s, old, new, n)\<close>: the first \<open>n\<close> non-overlapping instances of
  \<open>old\<close>, found from the left, are replaced by \<open>new\<close>; a negative \<open>n\<close> puts no limit
  on their number. \<open>replace_first\<close> is the scan for a non-empty \<open>old\<close>.
\<close>

function replace_first :: "string \<Rightarrow> string \<Rightarrow> string \<Rightarrow> int \<Rightarrow> string" where
  "replace_first [] old new n = []"
| "replace_first (c # cs) old new n =
     (if n \<noteq> 0 \<and> old \<noteq> [] \<and> HasPrefix (c # cs) old
      then new @ replace_first (drop (length old) (c # cs)) old new (n - 1)
      else c # replace_first cs old new n)"
  by pat_completeness auto
termination
  by (relation "measure (\<lambda>(s, old, new, n). length s)") auto

text \<open>
  With an empty \<open>old\<close> Go inserts \<open>new\<close> before the string and after each UTF-8
  sequence, up to \<open>n\<close> times. service.go never passes an empty \<open>old\<close> (it passes
  \<^verbatim>\<open>"-"\<close> and a prefix ending in \<^verbatim>\<open>"_"\<close>); that branch is written here for
  strings whose UTF-8 sequences are single bytes.
\<close>

fun replace_empty :: "string \<Rightarrow> string \<Rightarrow> int \<Rightarrow> string" where
  "replace_empty [] new n = (if n = 0 then [] else new)"
| "replace_empty (c # cs) new n =
     (if n = 0 then c # cs else new @ c # replace_empty cs new (n - 1))"

definition Replace :: "string \<Rightarrow> string \<Rightarrow> string \<Rightarrow> int \<Rightarrow> string" where
  "Replace s old new n =
     (if old = new \<or> n = 0 then s
      else if old = [] then replace_empty s new n
      else replace_first s old new n)"

definition ReplaceAll :: "string \<Rightarrow> string \<Rightarrow> string \<Rightarrow> string" where
  "ReplaceAll s old new = Replace s old new (- 1)"

text \<open>
  \<^verbatim>\<open>unicode.IsSpace\<close> on the UTF-8 encoding: \<open>space_width s\<close> is the number of bytes of
  the white-space code point that \<open>s\<close> starts with, and 0 when it starts with none;
  \<open>space1\<close>, \<open>space2\<close> and \<open>space3\<close> are the encodings of one, two and three bytes.
  The code points are U+0009 to U+000D, U+0020, U+0085, U+00A0, U+1680, U+2000 to U+200A,
  U+2028, U+2029, U+202F, U+205F and U+3000. A byte that begins one of these encodings
  is never a continuation byte (0x80 to 0xBF) and every later byte of them is one, so a
  scan by bytes meets these encodings exactly where Go's scan by decoded code points does.
\<close>

definition space1 :: "nat \<Rightarrow> bool" where
  "space1 b0 = ((9 \<le> b0 \<and> b0 \<le> 13) \<or> b0 = 32)"

definition space2 :: "nat \<Rightarrow> nat \<Rightarrow> bool" where
  "space2 b0 b1 = (b0 = 0xC2 \<and> (b1 = 0x85 \<or> b1 = 0xA0))"

definition space3 :: "nat \<Rightarrow> nat \<Rightarrow> nat \<Rightarrow> bool" where
  "space3 b0 b1 b2 =
     ((b0 = 0xE1 \<and> b1 = 0x9A \<and> b2 = 0x80)
      \<or> (b0 = 0xE2 \<and> b1 = 0x80
           \<and> ((0x80 \<le> b2 \<and> b2 \<le> 0x8A) \<or> b2 = 0xA8 \<or> b2 = 0xA9 \<or> b2 = 0xAF))
      \<or> (b0 = 0xE2 \<and> b1 = 0x81 \<and> b2 = 0x9F)
      \<or> (b0 = 0xE3 \<and> b1 = 0x80 \<and> b2 = 0x80))"

fun space_width :: "string \<Rightarrow> nat" where
  "space_width [] = 0"
| "space_width [c0] = (if space1 (byte c0) then 1 else 0)"
| "space_width [c0, c1] =
     (if space1 (byte c0) then 1
      else if space2 (byte c0) (byte c1) then 2 else 0)"
| "space_width (c0 # c1 # c2 # cs) =
     (if space1 (byte c0) then 1
      else if space2 (byte c0) (byte c1) then 2
      else if space3 (byte c0) (byte c1) (byte c2) then 3 else 0)"

text \<open>Some white-space code point occurs in the string.\<close>

fun has_space :: "string \<Rightarrow> bool" where
  "has_space [] = False"
| "has_space (c # cs) = (0 < space_width (c # cs) \<or> has_space cs)"

text \<open>
  \<^verbatim>\<open>strings.Fields\<close>: the maximal runs of bytes between white space, in order. \<open>cur\<close>
  holds the bytes of the field that is open (Go keeps its start index; no field is open
  when \<open>cur\<close> is empty, since an open field has at least one byte).
\<close>

function fields_from :: "string \<Rightarrow> string \<Rightarrow> string list" where
  "fields_from cur [] = (if cur = [] then [] else [cur])"
| "fields_from cur (c # cs) =
     (if 0 < space_width (c # cs)
      then (if cur = [] then [] else [cur])
             @ fields_from [] (drop (space_width (c # cs)) (c # cs))
      else fields_from (cur @ [c]) cs)"
  by pat_completeness auto
termination
  by (relation "measure (\<lambda>(cur, s). length s)") auto

definition Fields :: "string \<Rightarrow> string list" where
  "Fields s = fields_from [] s"

text \<open>\<^verbatim>\<open>strings.Join\<close>.\<close>

fun Join :: "string list \<Rightarrow> string \<Rightarrow> string" where
  "Join [] sep = []"
| "Join [x] sep = x"
| "Join (x # y # ys) sep = x @ sep @ Join (y # ys) sep"

text \<open>\<^verbatim>\<open>strconv.Itoa\<close>: the decimal digits, after a minus sign for a negative number.\<close>

fun digits :: "nat \<Rightarrow> string" where
  "digits n =
     (if n < 10 then [char_of (48 + n)]
      else digits (n div 10) @ [char_of (48 + n mod 10)])"

definition Itoa :: "int \<Rightarrow> string" where
  "Itoa i = (if i < 0 then CHR ''-'' # digits (nat (- i)) else digits (nat i))"

declare digits.simps [simp del]

subsection \<open>Errors\<close>

text \<open>The four error values that service.go declares.\<close>

datatype kind = ErrMalformedEntity | ErrUnauthorizedAccess | ErrNotFound | ErrKuiperServer

text \<open>
  An error returned by the service is one of the four values itself or one of them
  wrapping a cause; the cause \<open>None\<close> is Go's \<^verbatim>\<open>nil\<close>.
\<close>

datatype error = Plain kind | Wrapped kind "go_error option"

text \<open>
  Modelled from the spec: \<^verbatim>\<open>errors.Wrap\<close> of the package \<^verbatim>\<open>pkg/errors\<close>, which
  service.go imports and which is not among the given sources. Section 7 of the spec: a
  failure is wrapped into one of the error kinds, "carrying the underlying cause".
\<close>

definition Wrap :: "kind \<Rightarrow> go_error option \<Rightarrow> error" where
  "Wrap wrapper err = Wrapped wrapper err"

fun kind_of :: "error \<Rightarrow> kind" where
  "kind_of (Plain k) = k"
| "kind_of (Wrapped k c) = k"

text \<open>
  An operation ends with a value, with an error, or with the run-time panic of an index
  out of range.
\<close>

datatype failure = IndexOutOfRange | Failed error

subsection \<open>Data\<close>

record Info =
  Version :: string
  Os :: string
  UpTimeSeconds :: int

text \<open>
  Modelled from the spec: the types \<^verbatim>\<open>Stream\<close> and \<^verbatim>\<open>Rule\<close> are declared in
  another file of the package. Section 3 of the spec: a stream is "identified by a
  namespaced name"; a rule is "a structured object containing an identifier, a query
  string, and a list of actions (each action referencing a target topic)". The records
  hold the fields that service.go reads or writes.
\<close>

record Stream =
  Name :: string

record MainfluxAction =
  Channel :: string

record Action =
  Mainflux :: MainfluxAction

record Rule =
  ID :: string
  SQL :: string
  Actions :: "Action list"

text \<open>
  The body of a request is kept as the value handed to \<^verbatim>\<open>json.Marshal\<close>: the map
  \<^verbatim>\<open>map[string]string\<close> as its list of pairs, or the rule. \<^verbatim>\<open>json.Marshal\<close> returns
  no error for a map of strings, so the check of lines 143 to 145 in \<^verbatim>\<open>UpdateStream\<close>
  has no branch here; \<^verbatim>\<open>CreateStream\<close> and \<^verbatim>\<open>CreateRule\<close> do not look at that error.
\<close>

datatype payload = NoBody | JsonMap "(string \<times> string) list" | JsonRule Rule

record request =
  Method :: string
  URL :: string
  Payload :: payload

text \<open>
  A response: its status and what reading its body to the end gives, the bytes or the
  error of the read.
\<close>

record response =
  StatusCode :: int
  Body :: "go_error + string"

text \<open>
  The collaborators of the service and what the package declares outside service.go:
  the constants \<^verbatim>\<open>FORMAT\<close> and \<^verbatim>\<open>TYPE\<close>, the identity lookup (the identifier of
  the caller, or \<open>None\<close> for an error), the channel lookup (whether it returns without
  error), \<^verbatim>\<open>http.NewRequest\<close> (the error of a URL that does not parse, or \<open>None\<close>),
  the round trip to the engine, and the JSON decoders of the three response types.
\<close>

record env =
  FORMAT_const :: string
  TYPE_const :: string
  auth_Identify :: "string \<Rightarrow> string option"
  sdk_Channel :: "string \<Rightarrow> string \<Rightarrow> bool"
  http_NewRequest :: "string \<Rightarrow> string \<Rightarrow> go_error option"
  http_Do :: "request \<Rightarrow> go_error + response"
  decode_Info :: "string \<Rightarrow> go_error + Info"
  decode_Streams :: "string \<Rightarrow> go_error + string list"
  decode_Stream :: "string \<Rightarrow> go_error + Stream"

text \<open>
  Every operation returns the list of requests it has passed to the engine, in order,
  and its outcome.
\<close>

type_synonym 'a outcome = "request list \<times> (failure + 'a)"

definition host :: string where
  "host = ''http://localhost:9081''"

text \<open>
  \<^verbatim>\<open>http.Get(url)\<close>: the request is built, then sent. Either step may fail, and the
  caller sees one error.
\<close>

definition http_Get :: "env \<Rightarrow> string \<Rightarrow> request list \<times> (go_error + response)" where
  "http_Get re url =
     (case http_NewRequest re ''GET'' url of
        Some err \<Rightarrow> ([], Inl err)
      | None \<Rightarrow>
          (let req = \<lparr>Method = ''GET'', URL = url, Payload = NoBody\<rparr>
           in ([req], http_Do re req)))"

text \<open>\<^verbatim>\<open>json.NewDecoder(res.Body).Decode\<close>: a body that cannot be read does not decode.\<close>

definition Decode :: "(string \<Rightarrow> go_error + 'a) \<Rightarrow> response \<Rightarrow> go_error + 'a" where
  "Decode dec res = (case Body res of Inl err \<Rightarrow> Inl err | Inr b \<Rightarrow> dec b)"

subsection \<open>The helpers of service.go\<close>

definition sql :: "env \<Rightarrow> string \<Rightarrow> string \<Rightarrow> string \<Rightarrow> string" where
  "sql re name topic row =
     ''create stream '' @ name @ '' ('' @ row @ '') WITH (DATASOURCE = \"'' @ topic
       @ ''\" FORMAT = \"'' @ FORMAT_const re @ ''\" TYPE = \"'' @ TYPE_const re @ ''\")''"

definition prefix :: "string \<Rightarrow> string" where
  "prefix ident = ReplaceAll ident ''-'' [] @ ''_''"

definition prepend :: "string \<Rightarrow> string \<Rightarrow> string" where
  "prepend ident name = prefix ident @ name"

definition remove :: "string \<Rightarrow> string \<Rightarrow> string" where
  "remove ident name = Replace name (prefix ident) [] 1"

text \<open>The loop of \<^verbatim>\<open>indexOf\<close>, with \<open>k\<close> the index of the element under test.\<close>

fun indexOf_from :: "nat \<Rightarrow> string \<Rightarrow> string list \<Rightarrow> int" where
  "indexOf_from k element [] = - 1"
| "indexOf_from k element (v # data) =
     (if element = v then int k else indexOf_from (Suc k) element data)"

definition indexOf :: "string \<Rightarrow> string list \<Rightarrow> int" where
  "indexOf element data = indexOf_from 0 element data"

definition result :: "response \<Rightarrow> string \<Rightarrow> int \<Rightarrow> error + string" where
  "result res action status =
     (if StatusCode res \<noteq> status then
        (case Body res of
           Inl err \<Rightarrow> Inl (Wrap ErrKuiperServer (Some err))
         | Inr reason \<Rightarrow>
             Inr (action @ '' failed. Kuiper http status: '' @ Itoa (StatusCode res)
                    @ ''. '' @ reason))
      else Inr (action @ '' successful.''))"

text \<open>
  The statements that end \<^verbatim>\<open>CreateStream\<close>, \<^verbatim>\<open>UpdateStream\<close>, \<^verbatim>\<open>DeleteStream\<close>
  and \<^verbatim>\<open>CreateRule\<close> alike: \<^verbatim>\<open>http.NewRequest\<close>, \<^verbatim>\<open>http.DefaultClient.Do\<close>, then
  \<^verbatim>\<open>result\<close>, each error returned as it arises.
\<close>

definition send :: "env \<Rightarrow> string \<Rightarrow> string \<Rightarrow> payload \<Rightarrow> string \<Rightarrow> int \<Rightarrow> string outcome" where
  "send re method url body action status =
     (case http_NewRequest re method url of
        Some err \<Rightarrow> ([], Inl (Failed (Wrap ErrKuiperServer (Some err))))
      | None \<Rightarrow>
          (let req = \<lparr>Method = method, URL = url, Payload = body\<rparr>
           in case http_Do re req of
                Inl err \<Rightarrow> ([req], Inl (Failed (Wrap ErrKuiperServer (Some err))))
              | Inr res \<Rightarrow>
                  (case result res action status of
                     Inl e \<Rightarrow> ([req], Inl (Failed e))
                   | Inr r \<Rightarrow> ([req], Inr r))))"

subsection \<open>The operations\<close>

definition Info :: "env \<Rightarrow> Info outcome" where
  "Info re =
     (case http_Get re host of
        (reqs, Inl err) \<Rightarrow> (reqs, Inl (Failed (Wrap ErrKuiperServer (Some err))))
      | (reqs, Inr res) \<Rightarrow>
          (case Decode (decode_Info re) res of
             Inl err \<Rightarrow> (reqs, Inl (Failed (Wrap ErrKuiperServer (Some err))))
           | Inr i \<Rightarrow> (reqs, Inr i)))"

definition CreateStream :: "env \<Rightarrow> string \<Rightarrow> string \<Rightarrow> string \<Rightarrow> string \<Rightarrow> string outcome" where
  "CreateStream re token name topic row =
     (case auth_Identify re token of
        None \<Rightarrow> ([], Inl (Failed (Plain ErrUnauthorizedAccess)))
      | Some ui \<Rightarrow>
          if \<not> sdk_Channel re topic token then ([], Inl (Failed (Plain ErrUnauthorizedAccess)))
          else
            (let name' = prepend ui name;
                 body = JsonMap [(''sql'', sql re name' topic row)];
                 url = host @ ''/'' @ ''streams''
             in send re ''POST'' url body ''Create stream'' 201))"

definition UpdateStream :: "env \<Rightarrow> string \<Rightarrow> string \<Rightarrow> string \<Rightarrow> string \<Rightarrow> string outcome" where
  "UpdateStream re token name topic row =
     (case auth_Identify re token of
        None \<Rightarrow> ([], Inl (Failed (Plain ErrUnauthorizedAccess)))
      | Some ui \<Rightarrow>
          if \<not> sdk_Channel re topic token then ([], Inl (Failed (Plain ErrUnauthorizedAccess)))
          else
            (let name' = prepend ui name;
                 body = JsonMap [(''sql'', sql re name' topic row)];
                 url = host @ ''/'' @ ''streams'' @ ''/'' @ name'
             in send re ''PUT'' url body ''Update stream'' 200))"

definition ListStreams :: "env \<Rightarrow> string \<Rightarrow> string list outcome" where
  "ListStreams re token =
     (case auth_Identify re token of
        None \<Rightarrow> ([], Inl (Failed (Plain ErrUnauthorizedAccess)))
      | Some ui \<Rightarrow>
          (case http_Get re (host @ ''/'' @ ''streams'') of
             (reqs, Inl err) \<Rightarrow> (reqs, Inl (Failed (Wrap ErrKuiperServer (Some err))))
           | (reqs, Inr res) \<Rightarrow>
               (case Decode (decode_Streams re) res of
                  Inl err \<Rightarrow> (reqs, Inl (Failed (Wrap ErrMalformedEntity (Some err))))
                | Inr streams \<Rightarrow> (reqs, Inr (map (remove ui) streams)))))"

definition ViewStream :: "env \<Rightarrow> string \<Rightarrow> string \<Rightarrow> Stream outcome" where
  "ViewStream re token name =
     (case auth_Identify re token of
        None \<Rightarrow> ([], Inl (Failed (Plain ErrUnauthorizedAccess)))
      | Some ui \<Rightarrow>
          (let name' = prepend ui name;
               url = host @ ''/'' @ ''streams'' @ ''/'' @ name'
           in case http_Get re url of
                (reqs, Inl err) \<Rightarrow> (reqs, Inl (Failed (Wrap ErrKuiperServer (Some err))))
              | (reqs, Inr res) \<Rightarrow>
                  if StatusCode res = 404 then (reqs, Inl (Failed (Wrap ErrNotFound None)))
                  else
                    (case Decode (decode_Stream re) res of
                       Inl err \<Rightarrow> (reqs, Inl (Failed (Wrap ErrMalformedEntity (Some err))))
                     | Inr stream \<Rightarrow>
                         (reqs, Inr (stream\<lparr>Name := remove ui (Name stream)\<rparr>)))))"

definition DeleteStream :: "env \<Rightarrow> string \<Rightarrow> string \<Rightarrow> string outcome" where
  "DeleteStream re token name =
     (case auth_Identify re token of
        None \<Rightarrow> ([], Inl (Failed (Plain ErrUnauthorizedAccess)))
      | Some ui \<Rightarrow>
          (let name' = prepend ui name;
               url = host @ ''/'' @ ''streams'' @ ''/'' @ name'
           in send re ''DELETE'' url NoBody ''Delete stream'' 200))"

text \<open>
  Lines 253 to 257 of \<^verbatim>\<open>CreateRule\<close>: the identifier is namespaced, the query is
  split into words, the word after the first \<^verbatim>\<open>from\<close> is namespaced, and the words
  are joined with single spaces. Reading or writing \<^verbatim>\<open>words[idx]\<close> outside the slice
  panics.
\<close>

definition rewrite :: "string \<Rightarrow> Rule \<Rightarrow> failure + Rule" where
  "rewrite ui rule =
     (let words = Fields (SQL rule);
          idx = indexOf ''from'' words + 1
      in if idx < 0 \<or> int (length words) \<le> idx then Inl IndexOutOfRange
         else
           (let words' = words[nat idx := prepend ui (words ! nat idx)]
            in Inr (rule\<lparr>ID := prepend ui (ID rule), SQL := Join words' '' ''\<rparr>)))"

definition CreateRule :: "env \<Rightarrow> string \<Rightarrow> Rule \<Rightarrow> string outcome" where
  "CreateRule re token rule =
     (case auth_Identify re token of
        None \<Rightarrow> ([], Inl (Failed (Plain ErrUnauthorizedAccess)))
      | Some ui \<Rightarrow>
          (case Actions rule of
             [] \<Rightarrow> ([], Inl IndexOutOfRange)
           | a # _ \<Rightarrow>
               if \<not> sdk_Channel re (Channel (Mainflux a)) token
               then ([], Inl (Failed (Plain ErrUnauthorizedAccess)))
               else
                 (case rewrite ui rule of
                    Inl f \<Rightarrow> ([], Inl f)
                  | Inr rule' \<Rightarrow>
                      send re ''POST'' (host @ ''/'' @ ''rules'') (JsonRule rule')
                        ''Create rule'' 201)))"

text \<open>The outcome is an error of the not-found kind.\<close>

fun not_found :: "failure + 'a \<Rightarrow> bool" where
  "not_found (Inl (Failed e)) = (kind_of e = ErrNotFound)"
| "not_found (Inl IndexOutOfRange) = False"
| "not_found (Inr v) = False"

subsection \<open>An environment to run the operations in\<close>

text \<open>
  The token \<^verbatim>\<open>token\<close> belongs to the caller \<^verbatim>\<open>ab-cd\<close>, who may use the channel
  \<^verbatim>\<open>chan\<close>; every request can be built and the engine answers each with \<open>res\<close>. The
  stand-in decoders read the body as a version string, as stream names separated by
  white space, and as a stream name.
\<close>

definition example_env :: "response \<Rightarrow> env" where
  "example_env res =
     \<lparr>FORMAT_const = ''json'', TYPE_const = ''mainflux'',
      auth_Identify = (\<lambda>token. if token = ''token'' then Some ''ab-cd'' else None),
      sdk_Channel = (\<lambda>topic token. topic = ''chan'' \<and> token = ''token''),
      http_NewRequest = (\<lambda>method url. None),
      http_Do = (\<lambda>req. Inr res),
      decode_Info = (\<lambda>b. Inr \<lparr>Version = b, Os = [], UpTimeSeconds = 0\<rparr>),
      decode_Streams = (\<lambda>b. Inr (Fields b)),
      decode_Stream = (\<lambda>b. Inr \<lparr>Name = b\<rparr>)\<rparr>"

definition example_rule :: "string \<Rightarrow> Rule" where
  "example_rule q =
     \<lparr>ID = ''r1'', SQL = q, Actions = [\<lparr>Mainflux = \<lparr>Channel = ''chan''\<rparr>\<rparr>]\<rparr>"

section \<open>Properties\<close>

subsection \<open>Replacing and the namespace prefix\<close>

lemma replace_first_zero: "replace_first s old new 0 = s"
  by (induction s) auto

lemma replace_first_at_head:
  "old \<noteq> [] \<Longrightarrow> n \<noteq> 0 \<Longrightarrow>
     replace_first (old @ r) old new n = new @ replace_first r old new (n - 1)"
  by (cases old) (auto simp: HasPrefix_def)

lemma replace_first_absent: "\<not> Contains s old \<Longrightarrow> replace_first s old new n = s"
  by (induction s) auto

lemma prefix_nonempty: "prefix ident \<noteq> []"
  by (simp add: prefix_def)

lemma remove_prepend: "remove U (prepend U R) = R"
  using prefix_nonempty [of U]
  by (simp add: remove_def prepend_def Replace_def replace_first_at_head replace_first_zero)

lemma remove_HasPrefix:
  assumes "HasPrefix v (prefix ui)"
  shows "remove ui v = drop (length (prefix ui)) v"
proof -
  from assms have "v = prefix ui @ drop (length (prefix ui)) v"
    by (metis HasPrefix_def append_take_drop_id)
  then have "remove ui v = remove ui (prepend ui (drop (length (prefix ui)) v))"
    by (simp add: prepend_def)
  then show ?thesis by (simp add: remove_prepend)
qed

lemma remove_absent: "\<not> Contains v (prefix ui) \<Longrightarrow> remove ui v = v"
  by (simp add: remove_def Replace_def replace_first_absent)

lemma replace_first_once:
  "old \<noteq> [] \<Longrightarrow> Contains s old \<Longrightarrow>
     \<exists>a b. s = a @ old @ b \<and> replace_first s old new 1 = a @ new @ b
       \<and> (\<forall>i<length a. \<not> HasPrefix (drop i s) old)"
proof (induction s)
  case Nil
  then show ?case by simp
next
  case (Cons c cs)
  show ?case
  proof (cases "HasPrefix (c # cs) old")
    case True
    then have "c # cs = old @ drop (length old) (c # cs)"
      by (metis HasPrefix_def append_take_drop_id)
    moreover have "replace_first (c # cs) old new 1 = new @ drop (length old) (c # cs)"
      using True Cons.prems(1) by (simp add: replace_first_zero)
    ultimately show ?thesis
      by (metis append_Nil list.size(3) not_less_zero)
  next
    case False
    with Cons.prems have "Contains cs old" by simp
    with Cons.IH Cons.prems(1) obtain a b where
      ab: "cs = a @ old @ b" "replace_first cs old new 1 = a @ new @ b"
        "\<forall>i<length a. \<not> HasPrefix (drop i cs) old"
      by blast
    have "\<forall>i<length (c # a). \<not> HasPrefix (drop i (c # cs)) old"
    proof (intro allI impI)
      fix i assume "i < length (c # a)"
      then show "\<not> HasPrefix (drop i (c # cs)) old"
        using False ab(3) by (cases i) auto
    qed
    moreover have "c # cs = (c # a) @ old @ b" using ab(1) by simp
    moreover have "replace_first (c # cs) old new 1 = (c # a) @ new @ b"
      using False ab(2) by simp
    ultimately show ?thesis by blast
  qed
qed

lemma remove_first_occurrence:
  "Contains v (prefix ui) \<Longrightarrow>
     \<exists>a b. v = a @ prefix ui @ b \<and> remove ui v = a @ b
       \<and> (\<forall>i<length a. \<not> HasPrefix (drop i v) (prefix ui))"
  using replace_first_once [of "prefix ui" v "[]"] prefix_nonempty [of ui]
  by (simp add: remove_def Replace_def)

subsection \<open>Listing streams\<close>

lemma ListStreams_ok:
  "auth_Identify re token = Some ui \<Longrightarrow>
   http_NewRequest re ''GET'' (host @ ''/streams'') = None \<Longrightarrow>
   http_Do re \<lparr>Method = ''GET'', URL = host @ ''/streams'', Payload = NoBody\<rparr> = Inr res \<Longrightarrow>
   Decode (decode_Streams re) res = Inr streams \<Longrightarrow>
   ListStreams re token
     = ([\<lparr>Method = ''GET'', URL = host @ ''/streams'', Payload = NoBody\<rparr>],
        Inr (map (remove ui) streams))"
  by (simp add: ListStreams_def http_Get_def)

text \<open>
  C3, as the spec states it, fails: \<^verbatim>\<open>remove\<close> calls \<^verbatim>\<open>strings.Replace\<close> with a count
  of 1, which deletes the first occurrence of the prefix wherever it stands. The caller
  \<^verbatim>\<open>ab-cd\<close> has the prefix \<^verbatim>\<open>abcd_\<close>; the entry \<^verbatim>\<open>zabcd_t\<close> does not start with it
  and is returned as \<^verbatim>\<open>zt\<close>.
\<close>

theorem ListStreams_every_entry_counterexample:
  "\<not> HasPrefix ''zabcd_t'' (prefix ''ab-cd'')
   \<and> ListStreams (example_env \<lparr>StatusCode = 200, Body = Inr ''zabcd_t''\<rparr>) ''token''
       = ([\<lparr>Method = ''GET'', URL = host @ ''/streams'', Payload = NoBody\<rparr>], Inr [''zt''])"
  by (simp add: ListStreams_def example_env_def http_Get_def Decode_def Fields_def
      space1_def space2_def space3_def byte_def remove_def prefix_def ReplaceAll_def Replace_def HasPrefix_def)

text \<open>
  C3, amended: when the identity lookup, the request and the decoding succeed,
  \<^verbatim>\<open>ListStreams\<close> returns the backend's list with \<^verbatim>\<open>remove\<close> applied to every entry.
  An entry that starts with the caller's prefix loses that prefix; an entry in which the
  prefix does not occur is unchanged; an entry in which it occurs loses its first
  occurrence, wherever that is.
\<close>

theorem ListStreams_removes_first_occurrence:
  "(auth_Identify re token = Some ui \<longrightarrow>
    http_NewRequest re ''GET'' (host @ ''/streams'') = None \<longrightarrow>
    http_Do re \<lparr>Method = ''GET'', URL = host @ ''/streams'', Payload = NoBody\<rparr> = Inr res \<longrightarrow>
    Decode (decode_Streams re) res = Inr streams \<longrightarrow>
    snd (ListStreams re token) = Inr (map (remove ui) streams))
   \<and> (HasPrefix v (prefix ui) \<longrightarrow> remove ui v = drop (length (prefix ui)) v)
   \<and> (\<not> Contains v (prefix ui) \<longrightarrow> remove ui v = v)
   \<and> (Contains v (prefix ui) \<longrightarrow>
        (\<exists>a b. v = a @ prefix ui @ b \<and> remove ui v = a @ b
           \<and> (\<forall>i<length a. \<not> HasPrefix (drop i v) (prefix ui))))"
  using ListStreams_ok [of re token ui res streams] remove_HasPrefix [of v ui]
    remove_absent [of v ui] remove_first_occurrence [of v ui]
  by simp

theorem ListStreams_removes_first_occurrence_witness:
  "snd (ListStreams (example_env \<lparr>StatusCode = 200, Body = Inr ''abcd_s1 zabcd_t other''\<rparr>)
          ''token'')
     = Inr [''s1'', ''zt'', ''other'']
   \<and> HasPrefix ''abcd_s1'' (prefix ''ab-cd'') \<and> remove ''ab-cd'' ''abcd_s1'' = ''s1''
   \<and> \<not> Contains ''other'' (prefix ''ab-cd'') \<and> remove ''ab-cd'' ''other'' = ''other''
   \<and> Contains ''zabcd_t'' (prefix ''ab-cd'') \<and> remove ''ab-cd'' ''zabcd_t'' = ''zt''"
  using ListStreams_removes_first_occurrence [of
      "example_env \<lparr>StatusCode = 200, Body = Inr ''abcd_s1 zabcd_t other''\<rparr>" "''token''"
      "''ab-cd''" "\<lparr>StatusCode = 200, Body = Inr ''abcd_s1 zabcd_t other''\<rparr>"
      "[''abcd_s1'', ''zabcd_t'', ''other'']" "''abcd_s1''"]
    ListStreams_removes_first_occurrence [of
      "example_env \<lparr>StatusCode = 200, Body = Inr ''abcd_s1 zabcd_t other''\<rparr>" "''token''"
      "''ab-cd''" "\<lparr>StatusCode = 200, Body = Inr ''abcd_s1 zabcd_t other''\<rparr>"
      "[''abcd_s1'', ''zabcd_t'', ''other'']" "''other''"]
  by (simp add: example_env_def Decode_def Fields_def space1_def space2_def space3_def byte_def
      remove_def prefix_def ReplaceAll_def Replace_def HasPrefix_def host_def)

subsection \<open>The round trip of a name\<close>

text \<open>
  C4: for every caller identity \<open>U\<close> and every resource name \<open>R\<close>, removing the caller's
  prefix from the name that \<^verbatim>\<open>prepend\<close> builds gives back \<open>R\<close>. So when the engine
  answers \<^verbatim>\<open>ViewStream\<close> with the stream under the name that \<^verbatim>\<open>CreateStream\<close> sent,
  the caller sees the name \<open>R\<close> again.
\<close>

theorem namespacing_round_trip:
  "remove U (prepend U R) = R \<and>
   (auth_Identify re token = Some U \<longrightarrow>
    http_NewRequest re ''GET'' (host @ ''/streams/'' @ prepend U R) = None \<longrightarrow>
    http_Do re \<lparr>Method = ''GET'', URL = host @ ''/streams/'' @ prepend U R, Payload = NoBody\<rparr>
      = Inr res \<longrightarrow>
    StatusCode res \<noteq> 404 \<longrightarrow>
    Decode (decode_Stream re) res = Inr st \<longrightarrow>
    Name st = prepend U R \<longrightarrow>
    snd (ViewStream re token R) = Inr (st\<lparr>Name := R\<rparr>))"
  by (simp add: remove_prepend ViewStream_def http_Get_def)

theorem namespacing_round_trip_witness:
  "auth_Identify (example_env \<lparr>StatusCode = 200, Body = Inr ''abcd_s1''\<rparr>) ''token''
     = Some ''ab-cd''
   \<and> prepend ''ab-cd'' ''s1'' = ''abcd_s1''
   \<and> remove ''ab-cd'' ''abcd_s1'' = ''s1''
   \<and> snd (ViewStream (example_env \<lparr>StatusCode = 200, Body = Inr ''abcd_s1''\<rparr>) ''token'' ''s1'')
       = Inr \<lparr>Name = ''s1''\<rparr>"
  using namespacing_round_trip [of "''ab-cd''" "''s1''"
      "example_env \<lparr>StatusCode = 200, Body = Inr ''abcd_s1''\<rparr>" "''token''"
      "\<lparr>StatusCode = 200, Body = Inr ''abcd_s1''\<rparr>" "\<lparr>Name = ''abcd_s1''\<rparr>"]
  by (simp add: example_env_def Decode_def prepend_def prefix_def ReplaceAll_def Replace_def
      HasPrefix_def)

subsection \<open>A token that the identity lookup does not resolve\<close>

lemma unauthorized_six:
  "auth_Identify re token = None \<Longrightarrow>
     CreateStream re token name topic row = ([], Inl (Failed (Plain ErrUnauthorizedAccess)))
   \<and> UpdateStream re token name topic row = ([], Inl (Failed (Plain ErrUnauthorizedAccess)))
   \<and> ListStreams re token = ([], Inl (Failed (Plain ErrUnauthorizedAccess)))
   \<and> ViewStream re token name = ([], Inl (Failed (Plain ErrUnauthorizedAccess)))
   \<and> DeleteStream re token name = ([], Inl (Failed (Plain ErrUnauthorizedAccess)))
   \<and> CreateRule re token rule = ([], Inl (Failed (Plain ErrUnauthorizedAccess)))"
  by (simp add: CreateStream_def UpdateStream_def ListStreams_def ViewStream_def
      DeleteStream_def CreateRule_def)

lemma Info_ignores_identity: "Info (re\<lparr>auth_Identify := f\<rparr>) = Info re"
  by (simp add: Info_def http_Get_def Let_def split: option.splits sum.splits)

lemma Info_requests:
  "http_NewRequest re ''GET'' host = None \<Longrightarrow>
     fst (Info re) = [\<lparr>Method = ''GET'', URL = host, Payload = NoBody\<rparr>]"
  by (simp add: Info_def http_Get_def Let_def split: sum.splits)

text \<open>
  C1, as the spec states it, fails for \<^verbatim>\<open>Info\<close>: that operation takes no token and makes
  no identity lookup. With a lookup that resolves no token at all it still sends its GET
  to the engine and returns the decoded status.
\<close>

theorem Info_without_identity_counterexample:
  "auth_Identify ((example_env \<lparr>StatusCode = 200, Body = Inr ''1.0''\<rparr>)\<lparr>auth_Identify := (\<lambda>token. None)\<rparr>) ''token'' = None
   \<and> Info ((example_env \<lparr>StatusCode = 200, Body = Inr ''1.0''\<rparr>)\<lparr>auth_Identify := (\<lambda>token. None)\<rparr>)
       = ([\<lparr>Method = ''GET'', URL = host, Payload = NoBody\<rparr>],
          Inr \<lparr>Version = ''1.0'', Os = [], UpTimeSeconds = 0\<rparr>)"
  by (simp add: Info_def http_Get_def example_env_def Decode_def)

text \<open>
  C1, amended: for every token that the identity lookup does not resolve, each of the six
  operations that take a token (\<^verbatim>\<open>CreateStream\<close>, \<^verbatim>\<open>UpdateStream\<close>, \<^verbatim>\<open>ListStreams\<close>,
  \<^verbatim>\<open>ViewStream\<close>, \<^verbatim>\<open>DeleteStream\<close>, \<^verbatim>\<open>CreateRule\<close>) returns the unauthorized-access
  error and passes no request to the engine. \<^verbatim>\<open>Info\<close> does not depend on the identity
  lookup: whatever the lookup is, it gives the same outcome, and it sends its GET for the
  engine's status whenever that request can be built.
\<close>

theorem unresolved_token_unauthorized:
  "(auth_Identify re token = None \<longrightarrow>
       CreateStream re token name topic row = ([], Inl (Failed (Plain ErrUnauthorizedAccess)))
     \<and> UpdateStream re token name topic row = ([], Inl (Failed (Plain ErrUnauthorizedAccess)))
     \<and> ListStreams re token = ([], Inl (Failed (Plain ErrUnauthorizedAccess)))
     \<and> ViewStream re token name = ([], Inl (Failed (Plain ErrUnauthorizedAccess)))
     \<and> DeleteStream re token name = ([], Inl (Failed (Plain ErrUnauthorizedAccess)))
     \<and> CreateRule re token rule = ([], Inl (Failed (Plain ErrUnauthorizedAccess))))
   \<and> Info (re\<lparr>auth_Identify := f\<rparr>) = Info re
   \<and> (http_NewRequest re ''GET'' host = None \<longrightarrow>
        fst (Info re) = [\<lparr>Method = ''GET'', URL = host, Payload = NoBody\<rparr>])"
  using unauthorized_six [of re token name topic row rule] Info_ignores_identity [of f re]
    Info_requests [of re]
  by simp

theorem unresolved_token_unauthorized_witness:
  "auth_Identify (example_env \<lparr>StatusCode = 200, Body = Inr ''1.0''\<rparr>) ''bad'' = None
   \<and> CreateStream (example_env \<lparr>StatusCode = 200, Body = Inr ''1.0''\<rparr>) ''bad'' ''s1'' ''chan'' ''a bigint''
       = ([], Inl (Failed (Plain ErrUnauthorizedAccess)))
   \<and> UpdateStream (example_env \<lparr>StatusCode = 200, Body = Inr ''1.0''\<rparr>) ''bad'' ''s1'' ''chan'' ''a bigint''
       = ([], Inl (Failed (Plain ErrUnauthorizedAccess)))
   \<and> ListStreams (example_env \<lparr>StatusCode = 200, Body = Inr ''1.0''\<rparr>) ''bad''
       = ([], Inl (Failed (Plain ErrUnauthorizedAccess)))
   \<and> ViewStream (example_env \<lparr>StatusCode = 200, Body = Inr ''1.0''\<rparr>) ''bad'' ''s1''
       = ([], Inl (Failed (Plain ErrUnauthorizedAccess)))
   \<and> DeleteStream (example_env \<lparr>StatusCode = 200, Body = Inr ''1.0''\<rparr>) ''bad'' ''s1''
       = ([], Inl (Failed (Plain ErrUnauthorizedAccess)))
   \<and> CreateRule (example_env \<lparr>StatusCode = 200, Body = Inr ''1.0''\<rparr>) ''bad''
         (example_rule ''select * from t'')
       = ([], Inl (Failed (Plain ErrUnauthorizedAccess)))
   \<and> fst (Info (example_env \<lparr>StatusCode = 200, Body = Inr ''1.0''\<rparr>))
       = [\<lparr>Method = ''GET'', URL = host, Payload = NoBody\<rparr>]"
  using unresolved_token_unauthorized [of "example_env \<lparr>StatusCode = 200, Body = Inr ''1.0''\<rparr>"
      "''bad''" "''s1''" "''chan''" "''a bigint''" "example_rule ''select * from t''"]
  by (simp add: example_env_def)

subsection \<open>A rule without actions\<close>

text \<open>
  C8, as stated, fails for a token that the identity lookup does not resolve: the lookup
  comes before the access to \<^verbatim>\<open>Actions[0]\<close>, so \<^verbatim>\<open>CreateRule\<close> returns the
  unauthorized-access error, one of the declared error values, although the rule has no
  action.
\<close>

theorem CreateRule_empty_actions_counterexample:
  "Actions ((example_rule ''select * from t'')\<lparr>Actions := []\<rparr>) = []
   \<and> CreateRule (example_env \<lparr>StatusCode = 201, Body = Inr []\<rparr>) ''bad''
         ((example_rule ''select * from t'')\<lparr>Actions := []\<rparr>)
       = ([], Inl (Failed (Plain ErrUnauthorizedAccess)))"
  by (simp add: CreateRule_def example_env_def example_rule_def)

text \<open>
  C8, amended: for every rule whose list of actions is empty and every token that the
  identity lookup resolves, the access to \<^verbatim>\<open>Actions[0]\<close> in the channel check is out of
  range: \<^verbatim>\<open>CreateRule\<close> ends in the panic, with no request sent, and so returns neither
  a result nor any of the declared errors. With a token that the lookup does not resolve
  it returns the unauthorized-access error before that access.
\<close>

theorem CreateRule_empty_actions:
  "Actions rule = [] \<Longrightarrow>
     (auth_Identify re token = Some ui \<longrightarrow> CreateRule re token rule = ([], Inl IndexOutOfRange))
   \<and> (auth_Identify re token = None \<longrightarrow>
        CreateRule re token rule = ([], Inl (Failed (Plain ErrUnauthorizedAccess))))"
  by (simp add: CreateRule_def)

theorem CreateRule_empty_actions_witness:
  "Actions ((example_rule ''select * from t'')\<lparr>Actions := []\<rparr>) = []
   \<and> auth_Identify (example_env \<lparr>StatusCode = 201, Body = Inr []\<rparr>) ''token'' = Some ''ab-cd''
   \<and> CreateRule (example_env \<lparr>StatusCode = 201, Body = Inr []\<rparr>) ''token''
         ((example_rule ''select * from t'')\<lparr>Actions := []\<rparr>)
       = ([], Inl IndexOutOfRange)"
  using CreateRule_empty_actions [of "(example_rule ''select * from t'')\<lparr>Actions := []\<rparr>"
      "example_env \<lparr>StatusCode = 201, Body = Inr []\<rparr>" "''token''" "''ab-cd''"]
  by (simp add: example_env_def example_rule_def)

subsection \<open>What is sent and how the answer is translated\<close>

lemma HasPrefix_append: "HasPrefix (s @ b) s"
  by (simp add: HasPrefix_def)

lemma Contains_HasPrefix: "HasPrefix x s \<Longrightarrow> Contains x s"
  by (cases x) (auto simp: HasPrefix_def)

lemma Contains_append: "Contains (a @ s @ b) s"
  by (induction a) (auto simp: Contains_HasPrefix HasPrefix_append)

lemma Contains_suffix: "Contains (a @ s) s"
  using Contains_append [of a s "[]"] by simp

lemma send_requests:
  "http_NewRequest re m u = None \<Longrightarrow>
     fst (send re m u b a s) = [\<lparr>Method = m, URL = u, Payload = b\<rparr>]"
  by (simp add: send_def Let_def split: sum.splits)

lemma send_result:
  "http_NewRequest re m u = None \<Longrightarrow>
   http_Do re \<lparr>Method = m, URL = u, Payload = b\<rparr> = Inr res \<Longrightarrow>
     snd (send re m u b a s) = map_sum Failed id (result res a s)"
  by (simp add: send_def Let_def split: sum.splits)

lemma CreateStream_send:
  "auth_Identify re token = Some ui \<Longrightarrow> sdk_Channel re topic token \<Longrightarrow>
     CreateStream re token name topic row
       = send re ''POST'' (host @ ''/streams'')
           (JsonMap [(''sql'', sql re (prepend ui name) topic row)]) ''Create stream'' 201"
  by (simp add: CreateStream_def Let_def)

lemma UpdateStream_send:
  "auth_Identify re token = Some ui \<Longrightarrow> sdk_Channel re topic token \<Longrightarrow>
     UpdateStream re token name topic row
       = send re ''PUT'' (host @ ''/streams/'' @ prepend ui name)
           (JsonMap [(''sql'', sql re (prepend ui name) topic row)]) ''Update stream'' 200"
  by (simp add: UpdateStream_def Let_def)

lemma DeleteStream_send:
  "auth_Identify re token = Some ui \<Longrightarrow>
     DeleteStream re token name
       = send re ''DELETE'' (host @ ''/streams/'' @ prepend ui name) NoBody ''Delete stream'' 200"
  by (simp add: DeleteStream_def Let_def)

lemma CreateRule_send:
  "auth_Identify re token = Some ui \<Longrightarrow> Actions rule = a # acts \<Longrightarrow>
   sdk_Channel re (Channel (Mainflux a)) token \<Longrightarrow> rewrite ui rule = Inr rule' \<Longrightarrow>
     CreateRule re token rule
       = send re ''POST'' (host @ ''/rules'') (JsonRule rule') ''Create rule'' 201"
  by (simp add: CreateRule_def)

lemma result_matching:
  "StatusCode res = status \<Longrightarrow> result res action status = Inr (action @ '' successful.'')"
  by (simp add: result_def)

lemma result_differing:
  "StatusCode res \<noteq> status \<Longrightarrow> Body res = Inr reason \<Longrightarrow>
     result res action status
       = Inr (action @ '' failed. Kuiper http status: '' @ Itoa (StatusCode res) @ ''. '' @ reason)"
  by (simp add: result_def)

lemma result_unreadable:
  "StatusCode res \<noteq> status \<Longrightarrow> Body res = Inl err \<Longrightarrow>
     result res action status = Inl (Wrap ErrKuiperServer (Some err))"
  by (simp add: result_def)

lemma failure_text_contains:
  "Contains (action @ '' failed. Kuiper http status: '' @ code @ ''. '' @ reason) action
   \<and> Contains (action @ '' failed. Kuiper http status: '' @ code @ ''. '' @ reason) code
   \<and> Contains (action @ '' failed. Kuiper http status: '' @ code @ ''. '' @ reason) reason"
proof -
  have "Contains ([] @ action @ ('' failed. Kuiper http status: '' @ code @ ''. '' @ reason)) action"
    by (rule Contains_append)
  moreover have "Contains ((action @ '' failed. Kuiper http status: '') @ code @ (''. '' @ reason)) code"
    by (rule Contains_append)
  moreover have "Contains ((action @ '' failed. Kuiper http status: '' @ code @ ''. '') @ reason) reason"
    by (rule Contains_suffix)
  ultimately show ?thesis by simp
qed

text \<open>
  C6, as stated, fails for a response whose body cannot be read to its end: lines 307 to
  310 of \<^verbatim>\<open>result\<close> return the engine error then, not a text.
\<close>

theorem status_mismatch_counterexample:
  "StatusCode \<lparr>StatusCode = 500, Body = Inl ''unexpected EOF''\<rparr> \<noteq> 201
   \<and> snd (CreateStream (example_env \<lparr>StatusCode = 500, Body = Inl ''unexpected EOF''\<rparr>)
            ''token'' ''s1'' ''chan'' ''a bigint'')
       = Inl (Failed (Wrap ErrKuiperServer (Some ''unexpected EOF'')))"
  by (simp add: CreateStream_def example_env_def send_def result_def)

text \<open>
  C6, amended: \<^verbatim>\<open>CreateStream\<close>, \<^verbatim>\<open>UpdateStream\<close>, \<^verbatim>\<open>DeleteStream\<close> and
  \<^verbatim>\<open>CreateRule\<close>, once their checks have passed and the engine has answered, return
  what \<^verbatim>\<open>result\<close> makes of the response, with the action names \<^verbatim>\<open>Create stream\<close>,
  \<^verbatim>\<open>Update stream\<close>, \<^verbatim>\<open>Delete stream\<close>, \<^verbatim>\<open>Create rule\<close> and the expected statuses
  201, 200, 200, 201. When the status is the expected one, that is the value
  \<^verbatim>\<open><action> successful.\<close>. When it differs and the body of the response is read
  without error, it is a value, not an error: the text
  \<^verbatim>\<open><action> failed. Kuiper http status: <status>. <body>\<close>, which contains the action
  name, the decimal status and the body. When it differs and reading the body fails, it
  is the engine error wrapping the error of the read.
\<close>

theorem status_translated_to_text:
  "(auth_Identify re token = Some ui \<longrightarrow> sdk_Channel re topic token \<longrightarrow>
    http_NewRequest re ''POST'' (host @ ''/streams'') = None \<longrightarrow>
    http_Do re \<lparr>Method = ''POST'', URL = host @ ''/streams'',
       Payload = JsonMap [(''sql'', sql re (prepend ui name) topic row)]\<rparr> = Inr res \<longrightarrow>
    snd (CreateStream re token name topic row)
      = map_sum Failed id (result res ''Create stream'' 201))
   \<and> (auth_Identify re token = Some ui \<longrightarrow> sdk_Channel re topic token \<longrightarrow>
    http_NewRequest re ''PUT'' (host @ ''/streams/'' @ prepend ui name) = None \<longrightarrow>
    http_Do re \<lparr>Method = ''PUT'', URL = host @ ''/streams/'' @ prepend ui name,
       Payload = JsonMap [(''sql'', sql re (prepend ui name) topic row)]\<rparr> = Inr res \<longrightarrow>
    snd (UpdateStream re token name topic row)
      = map_sum Failed id (result res ''Update stream'' 200))
   \<and> (auth_Identify re token = Some ui \<longrightarrow>
    http_NewRequest re ''DELETE'' (host @ ''/streams/'' @ prepend ui name) = None \<longrightarrow>
    http_Do re \<lparr>Method = ''DELETE'', URL = host @ ''/streams/'' @ prepend ui name,
       Payload = NoBody\<rparr> = Inr res \<longrightarrow>
    snd (DeleteStream re token name) = map_sum Failed id (result res ''Delete stream'' 200))
   \<and> (auth_Identify re token = Some ui \<longrightarrow> Actions rule = a # acts \<longrightarrow>
    sdk_Channel re (Channel (Mainflux a)) token \<longrightarrow> rewrite ui rule = Inr rule' \<longrightarrow>
    http_NewRequest re ''POST'' (host @ ''/rules'') = None \<longrightarrow>
    http_Do re \<lparr>Method = ''POST'', URL = host @ ''/rules'', Payload = JsonRule rule'\<rparr>
      = Inr res \<longrightarrow>
    snd (CreateRule re token rule) = map_sum Failed id (result res ''Create rule'' 201))
   \<and> (StatusCode res = status \<longrightarrow>
        result res action status = Inr (action @ '' successful.''))
   \<and> (StatusCode res \<noteq> status \<longrightarrow> Body res = Inr reason \<longrightarrow>
        result res action status
          = Inr (action @ '' failed. Kuiper http status: '' @ Itoa (StatusCode res) @ ''. ''
                   @ reason)
        \<and> Contains (action @ '' failed. Kuiper http status: '' @ Itoa (StatusCode res) @ ''. ''
                   @ reason) action
        \<and> Contains (action @ '' failed. Kuiper http status: '' @ Itoa (StatusCode res) @ ''. ''
                   @ reason) (Itoa (StatusCode res))
        \<and> Contains (action @ '' failed. Kuiper http status: '' @ Itoa (StatusCode res) @ ''. ''
                   @ reason) reason)
   \<and> (StatusCode res \<noteq> status \<longrightarrow> Body res = Inl err \<longrightarrow>
        result res action status = Inl (Wrap ErrKuiperServer (Some err)))"
proof -
  have cs: "auth_Identify re token = Some ui \<longrightarrow> sdk_Channel re topic token \<longrightarrow>
    http_NewRequest re ''POST'' (host @ ''/streams'') = None \<longrightarrow>
    http_Do re \<lparr>Method = ''POST'', URL = host @ ''/streams'',
       Payload = JsonMap [(''sql'', sql re (prepend ui name) topic row)]\<rparr> = Inr res \<longrightarrow>
    snd (CreateStream re token name topic row)
      = map_sum Failed id (result res ''Create stream'' 201)"
    by (simp add: CreateStream_send send_result)
  have us: "auth_Identify re token = Some ui \<longrightarrow> sdk_Channel re topic token \<longrightarrow>
    http_NewRequest re ''PUT'' (host @ ''/streams/'' @ prepend ui name) = None \<longrightarrow>
    http_Do re \<lparr>Method = ''PUT'', URL = host @ ''/streams/'' @ prepend ui name,
       Payload = JsonMap [(''sql'', sql re (prepend ui name) topic row)]\<rparr> = Inr res \<longrightarrow>
    snd (UpdateStream re token name topic row)
      = map_sum Failed id (result res ''Update stream'' 200)"
    by (simp add: UpdateStream_send send_result)
  have ds: "auth_Identify re token = Some ui \<longrightarrow>
    http_NewRequest re ''DELETE'' (host @ ''/streams/'' @ prepend ui name) = None \<longrightarrow>
    http_Do re \<lparr>Method = ''DELETE'', URL = host @ ''/streams/'' @ prepend ui name,
       Payload = NoBody\<rparr> = Inr res \<longrightarrow>
    snd (DeleteStream re token name) = map_sum Failed id (result res ''Delete stream'' 200)"
    by (simp add: DeleteStream_send send_result)
  have cr: "auth_Identify re token = Some ui \<longrightarrow> Actions rule = a # acts \<longrightarrow>
    sdk_Channel re (Channel (Mainflux a)) token \<longrightarrow> rewrite ui rule = Inr rule' \<longrightarrow>
    http_NewRequest re ''POST'' (host @ ''/rules'') = None \<longrightarrow>
    http_Do re \<lparr>Method = ''POST'', URL = host @ ''/rules'', Payload = JsonRule rule'\<rparr>
      = Inr res \<longrightarrow>
    snd (CreateRule re token rule) = map_sum Failed id (result res ''Create rule'' 201)"
    using CreateRule_send [of re token ui rule a acts rule'] by (simp add: send_result)
  show ?thesis
    using cs us ds cr result_matching [of res status action]
      result_differing [of res status reason action] result_unreadable [of res status err action]
      failure_text_contains [of action "Itoa (StatusCode res)" reason]
    by simp
qed

theorem status_translated_to_text_witness:
  "snd (CreateStream (example_env \<lparr>StatusCode = 404, Body = Inr ''no such stream''\<rparr>)
          ''token'' ''s1'' ''chan'' ''a bigint'')
     = Inr ''Create stream failed. Kuiper http status: 404. no such stream''
   \<and> snd (UpdateStream (example_env \<lparr>StatusCode = 404, Body = Inr ''no such stream''\<rparr>)
          ''token'' ''s1'' ''chan'' ''a bigint'')
     = Inr ''Update stream failed. Kuiper http status: 404. no such stream''
   \<and> snd (DeleteStream (example_env \<lparr>StatusCode = 404, Body = Inr ''no such stream''\<rparr>)
          ''token'' ''s1'')
     = Inr ''Delete stream failed. Kuiper http status: 404. no such stream''
   \<and> snd (CreateRule (example_env \<lparr>StatusCode = 404, Body = Inr ''no such stream''\<rparr>)
          ''token'' (example_rule ''select * from t''))
     = Inr ''Create rule failed. Kuiper http status: 404. no such stream''
   \<and> Contains ''Create rule failed. Kuiper http status: 404. no such stream'' ''Create rule''
   \<and> Contains ''Create rule failed. Kuiper http status: 404. no such stream'' (Itoa 404)
   \<and> Contains ''Create rule failed. Kuiper http status: 404. no such stream'' ''no such stream''
   \<and> snd (DeleteStream (example_env \<lparr>StatusCode = 200, Body = Inr ''gone''\<rparr>) ''token'' ''s1'')
     = Inr ''Delete stream successful.''
   \<and> snd (CreateRule (example_env \<lparr>StatusCode = 500, Body = Inl ''unexpected EOF''\<rparr>)
          ''token'' (example_rule ''select * from t''))
     = Inl (Failed (Wrap ErrKuiperServer (Some ''unexpected EOF'')))"
proof -
  have rw: "rewrite ''ab-cd'' (example_rule ''select * from t'')
      = Inr ((example_rule ''select * from t'')\<lparr>ID := ''abcd_r1'', SQL := ''select * from abcd_t''\<rparr>)"
    by (simp add: rewrite_def example_rule_def Fields_def space1_def space2_def space3_def byte_def indexOf_def
        prepend_def prefix_def ReplaceAll_def Replace_def HasPrefix_def)
  have it: "Itoa 404 = ''404''"
    by code_simp
  show ?thesis
    using status_translated_to_text [of
        "example_env \<lparr>StatusCode = 404, Body = Inr ''no such stream''\<rparr>" "''token''" "''ab-cd''"
        "''chan''" "''s1''" "''a bigint''" "\<lparr>StatusCode = 404, Body = Inr ''no such stream''\<rparr>"
        "example_rule ''select * from t''" "\<lparr>Mainflux = \<lparr>Channel = ''chan''\<rparr>\<rparr>" "[]"
        "(example_rule ''select * from t'')\<lparr>ID := ''abcd_r1'', SQL := ''select * from abcd_t''\<rparr>"
        201 "''Create rule''" "''no such stream''"]
      status_translated_to_text [of
        "example_env \<lparr>StatusCode = 200, Body = Inr ''gone''\<rparr>" "''token''" "''ab-cd''"
        "''chan''" "''s1''" "''a bigint''" "\<lparr>StatusCode = 200, Body = Inr ''gone''\<rparr>"
        "example_rule ''select * from t''" "\<lparr>Mainflux = \<lparr>Channel = ''chan''\<rparr>\<rparr>" "[]"
        "(example_rule ''select * from t'')\<lparr>ID := ''abcd_r1'', SQL := ''select * from abcd_t''\<rparr>"
        200 "''Delete stream''"]
      status_translated_to_text [of
        "example_env \<lparr>StatusCode = 500, Body = Inl ''unexpected EOF''\<rparr>" "''token''" "''ab-cd''"
        "''chan''" "''s1''" "''a bigint''" "\<lparr>StatusCode = 500, Body = Inl ''unexpected EOF''\<rparr>"
        "example_rule ''select * from t''" "\<lparr>Mainflux = \<lparr>Channel = ''chan''\<rparr>\<rparr>" "[]"
        "(example_rule ''select * from t'')\<lparr>ID := ''abcd_r1'', SQL := ''select * from abcd_t''\<rparr>"
        201 "''Create rule''" _ "''unexpected EOF''"]
      rw it
    by (simp add: example_env_def example_rule_def result_def)
qed

text \<open>
  C7: for every name, topic and row, \<^verbatim>\<open>sql\<close> builds the string
  \<^verbatim>\<open>create stream <name> (<row>) WITH (DATASOURCE = "<topic>" FORMAT = "<FORMAT>" TYPE = "<TYPE>")\<close>
  with the two constants of the package, and \<^verbatim>\<open>CreateStream\<close> and \<^verbatim>\<open>UpdateStream\<close>,
  once the identity and channel lookups have passed and the request can be built, send
  exactly one request: a POST to \<^verbatim>\<open>/streams\<close>, respectively a PUT to
  \<^verbatim>\<open>/streams/<namespaced name>\<close>, whose JSON body has the one field \<^verbatim>\<open>sql\<close> holding
  that string for the namespaced name.
\<close>

theorem stream_query_sent:
  "sql re n topic row
     = ''create stream '' @ n @ '' ('' @ row @ '') WITH (DATASOURCE = \"'' @ topic
         @ ''\" FORMAT = \"'' @ FORMAT_const re @ ''\" TYPE = \"'' @ TYPE_const re @ ''\")''
   \<and> (auth_Identify re token = Some ui \<longrightarrow> sdk_Channel re topic token \<longrightarrow>
        http_NewRequest re ''POST'' (host @ ''/streams'') = None \<longrightarrow>
        fst (CreateStream re token name topic row)
          = [\<lparr>Method = ''POST'', URL = host @ ''/streams'',
               Payload = JsonMap [(''sql'', sql re (prepend ui name) topic row)]\<rparr>])
   \<and> (auth_Identify re token = Some ui \<longrightarrow> sdk_Channel re topic token \<longrightarrow>
        http_NewRequest re ''PUT'' (host @ ''/streams/'' @ prepend ui name) = None \<longrightarrow>
        fst (UpdateStream re token name topic row)
          = [\<lparr>Method = ''PUT'', URL = host @ ''/streams/'' @ prepend ui name,
               Payload = JsonMap [(''sql'', sql re (prepend ui name) topic row)]\<rparr>])"
  by (simp add: sql_def CreateStream_send UpdateStream_send send_requests)

theorem stream_query_sent_witness:
  "fst (CreateStream (example_env \<lparr>StatusCode = 201, Body = Inr []\<rparr>)
          ''token'' ''s1'' ''chan'' ''a bigint'')
     = [\<lparr>Method = ''POST'', URL = ''http://localhost:9081/streams'',
          Payload = JsonMap [(''sql'',
            ''create stream abcd_s1 (a bigint) WITH (DATASOURCE = \"chan\" FORMAT = \"json\" TYPE = \"mainflux\")'')]\<rparr>]
   \<and> fst (UpdateStream (example_env \<lparr>StatusCode = 200, Body = Inr []\<rparr>)
          ''token'' ''s1'' ''chan'' ''a bigint'')
     = [\<lparr>Method = ''PUT'', URL = ''http://localhost:9081/streams/abcd_s1'',
          Payload = JsonMap [(''sql'',
            ''create stream abcd_s1 (a bigint) WITH (DATASOURCE = \"chan\" FORMAT = \"json\" TYPE = \"mainflux\")'')]\<rparr>]"
  using stream_query_sent [of "example_env \<lparr>StatusCode = 201, Body = Inr []\<rparr>" "''abcd_s1''"
      "''chan''" "''a bigint''" "''token''" "''ab-cd''" "''s1''"]
    stream_query_sent [of "example_env \<lparr>StatusCode = 200, Body = Inr []\<rparr>" "''abcd_s1''"
      "''chan''" "''a bigint''" "''token''" "''ab-cd''" "''s1''"]
  by (simp add: example_env_def host_def prepend_def prefix_def ReplaceAll_def Replace_def
      HasPrefix_def)

subsection \<open>The not-found error\<close>

lemma send_not_found: "\<not> not_found (snd (send re m u b a s))"
  by (simp add: send_def result_def Wrap_def Let_def split: option.splits sum.splits)

lemma others_never_not_found:
  "\<not> not_found (snd (Info re))
   \<and> \<not> not_found (snd (CreateStream re token name topic row))
   \<and> \<not> not_found (snd (UpdateStream re token name topic row))
   \<and> \<not> not_found (snd (ListStreams re token))
   \<and> \<not> not_found (snd (DeleteStream re token name))
   \<and> \<not> not_found (snd (CreateRule re token rule))"
  by (auto simp: Info_def CreateStream_def UpdateStream_def ListStreams_def DeleteStream_def
      CreateRule_def rewrite_def send_not_found Wrap_def Let_def
      split: option.splits sum.splits prod.splits list.splits)

lemma ViewStream_404:
  "auth_Identify re token = Some ui \<Longrightarrow>
   http_NewRequest re ''GET'' (host @ ''/streams/'' @ prepend ui name) = None \<Longrightarrow>
   http_Do re \<lparr>Method = ''GET'', URL = host @ ''/streams/'' @ prepend ui name, Payload = NoBody\<rparr>
     = Inr res \<Longrightarrow>
   StatusCode res = 404 \<Longrightarrow>
   ViewStream re token name
     = ([\<lparr>Method = ''GET'', URL = host @ ''/streams/'' @ prepend ui name, Payload = NoBody\<rparr>],
        Inl (Failed (Wrap ErrNotFound None)))"
  by (simp add: ViewStream_def http_Get_def)

lemma ViewStream_not_found_only_404:
  "not_found (snd (ViewStream re token name)) \<Longrightarrow>
     \<exists>ui res. auth_Identify re token = Some ui
       \<and> http_Do re \<lparr>Method = ''GET'', URL = host @ ''/streams/'' @ prepend ui name,
            Payload = NoBody\<rparr> = Inr res
       \<and> StatusCode res = 404"
  by (auto simp: ViewStream_def http_Get_def Wrap_def Let_def
      split: option.splits sum.splits prod.splits if_splits)

text \<open>
  C5: when the engine answers the request of \<^verbatim>\<open>ViewStream\<close> with the status 404,
  \<^verbatim>\<open>ViewStream\<close> returns the error that \<^verbatim>\<open>errors.Wrap\<close> makes of \<^verbatim>\<open>ErrNotFound\<close> (the
  cause it wraps is \<^verbatim>\<open>nil\<close> there), of the not-found kind and not of the engine-error
  kind. \<^verbatim>\<open>ViewStream\<close> returns an error of that kind only after an answer with the
  status 404, and no other operation ever returns one.
\<close>

theorem ViewStream_not_found:
  "(auth_Identify re token = Some ui \<longrightarrow>
    http_NewRequest re ''GET'' (host @ ''/streams/'' @ prepend ui name) = None \<longrightarrow>
    http_Do re \<lparr>Method = ''GET'', URL = host @ ''/streams/'' @ prepend ui name,
       Payload = NoBody\<rparr> = Inr res \<longrightarrow>
    StatusCode res = 404 \<longrightarrow>
    snd (ViewStream re token name) = Inl (Failed (Wrap ErrNotFound None))
    \<and> kind_of (Wrap ErrNotFound None) = ErrNotFound
    \<and> kind_of (Wrap ErrNotFound None) \<noteq> ErrKuiperServer)
   \<and> (not_found (snd (ViewStream re token name)) \<longrightarrow>
        (\<exists>ui res. auth_Identify re token = Some ui
           \<and> http_Do re \<lparr>Method = ''GET'', URL = host @ ''/streams/'' @ prepend ui name,
                Payload = NoBody\<rparr> = Inr res
           \<and> StatusCode res = 404))
   \<and> \<not> not_found (snd (Info re))
   \<and> \<not> not_found (snd (CreateStream re token name topic row))
   \<and> \<not> not_found (snd (UpdateStream re token name topic row))
   \<and> \<not> not_found (snd (ListStreams re token))
   \<and> \<not> not_found (snd (DeleteStream re token name))
   \<and> \<not> not_found (snd (CreateRule re token rule))"
  using ViewStream_404 [of re token ui name res] ViewStream_not_found_only_404 [of re token name]
    others_never_not_found [of re token name topic row rule]
  by (simp add: Wrap_def)

theorem ViewStream_not_found_witness:
  "snd (ViewStream (example_env \<lparr>StatusCode = 404, Body = Inr ''no such stream''\<rparr>)
          ''token'' ''s1'')
     = Inl (Failed (Wrap ErrNotFound None))
   \<and> not_found (snd (ViewStream (example_env \<lparr>StatusCode = 404, Body = Inr ''no such stream''\<rparr>)
          ''token'' ''s1''))
   \<and> \<not> not_found (snd (DeleteStream
          (example_env \<lparr>StatusCode = 404, Body = Inr ''no such stream''\<rparr>) ''token'' ''s1''))"
  using ViewStream_not_found [of
      "example_env \<lparr>StatusCode = 404, Body = Inr ''no such stream''\<rparr>" "''token''" "''ab-cd''"
      "''s1''" "\<lparr>StatusCode = 404, Body = Inr ''no such stream''\<rparr>"]
  by (simp add: example_env_def Wrap_def)

subsection \<open>Words and white space\<close>

lemma space_width_append: "0 < space_width x \<Longrightarrow> space_width (x @ y) = space_width x"
proof (induction x rule: space_width.induct)
  case 1
  then show ?case by simp
next
  case (2 c0)
  then show ?case by (cases y rule: space_width.cases) (auto split: if_splits)
next
  case (3 c0 c1)
  then show ?case by (cases y) (auto split: if_splits)
next
  case (4 c0 c1 c2 cs)
  then show ?case by simp
qed

lemma has_space_iff: "has_space w \<longleftrightarrow> (\<exists>i<length w. 0 < space_width (drop i w))"
proof (induction w)
  case Nil
  then show ?case by simp
next
  case (Cons c cs)
  show ?case
  proof
    assume "has_space (c # cs)"
    then consider "0 < space_width (c # cs)" | "has_space cs" by auto
    then show "\<exists>i<length (c # cs). 0 < space_width (drop i (c # cs))"
    proof cases
      case 1
      then have "0 < length (c # cs) \<and> 0 < space_width (drop 0 (c # cs))" by simp
      then show ?thesis by blast
    next
      case 2
      with Cons.IH obtain i where "i < length cs" "0 < space_width (drop i cs)" by blast
      then have "Suc i < length (c # cs) \<and> 0 < space_width (drop (Suc i) (c # cs))" by simp
      then show ?thesis by blast
    qed
  next
    assume "\<exists>i<length (c # cs). 0 < space_width (drop i (c # cs))"
    then obtain i where i: "i < length (c # cs)" "0 < space_width (drop i (c # cs))" by blast
    show "has_space (c # cs)"
    proof (cases i)
      case 0
      with i show ?thesis by simp
    next
      case (Suc j)
      with i have "j < length cs" "0 < space_width (drop j cs)" by simp_all
      with Cons.IH show ?thesis by auto
    qed
  qed
qed

lemma fields_from_tokens:
  "\<forall>i<length cur. space_width (drop i (cur @ s)) = 0 \<Longrightarrow>
     \<forall>w\<in>set (fields_from cur s). w \<noteq> [] \<and> \<not> has_space w"
proof (induction cur s rule: fields_from.induct)
  case (1 cur)
  then show ?case by (auto simp: has_space_iff)
next
  case (2 cur c cs)
  show ?case
  proof (cases "0 < space_width (c # cs)")
    case True
    have cur: "\<not> has_space cur"
    proof
      assume "has_space cur"
      then obtain i where i: "i < length cur" "0 < space_width (drop i cur)"
        by (auto simp: has_space_iff)
      then have "0 < space_width (drop i cur @ c # cs)"
        by (simp add: space_width_append)
      with i(1) "2.prems" show False by simp
    qed
    have "\<forall>w\<in>set (fields_from [] (drop (space_width (c # cs)) (c # cs))). w \<noteq> [] \<and> \<not> has_space w"
      using "2.IH"(1) [OF True] by simp
    with True cur show ?thesis by (simp del: space_width.simps)
  next
    case False
    have "\<forall>i<length (cur @ [c]). space_width (drop i ((cur @ [c]) @ cs)) = 0"
    proof (intro allI impI)
      fix i assume "i < length (cur @ [c])"
      then consider "i < length cur" | "i = length cur" by fastforce
      then show "space_width (drop i ((cur @ [c]) @ cs)) = 0"
      proof cases
        case 1
        with "2.prems" show ?thesis by simp
      next
        case 2
        with False show ?thesis by simp
      qed
    qed
    from "2.IH"(2) [OF False this] False show ?thesis by simp
  qed
qed

lemma Fields_tokens: "\<forall>w\<in>set (Fields s). w \<noteq> [] \<and> \<not> has_space w"
  using fields_from_tokens [of "[]" s] by (simp add: Fields_def)

lemma byte_space: "byte CHR '' '' = 32"
  by (simp add: byte_def)

lemma space_width_blank: "space_width (CHR '' '' # r) = 1"
  by (cases "CHR '' '' # r" rule: space_width.cases) (auto simp: byte_space space1_def)

lemma space_width_before_blank:
  "x \<noteq> [] \<Longrightarrow> space_width x = 0 \<Longrightarrow> space_width (x @ CHR '' '' # r) = 0"
proof (induction x rule: space_width.induct)
  case 1
  then show ?case by simp
next
  case (2 c0)
  then show ?case
    by (cases r) (auto simp: byte_space space2_def space3_def split: if_splits)
next
  case (3 c0 c1)
  then show ?case
    by (auto simp: byte_space space3_def split: if_splits)
next
  case (4 c0 c1 c2 cs)
  then show ?case by (simp split: if_splits)
qed

lemma fields_from_run:
  "\<forall>i<length w. space_width (drop i (w @ r)) = 0 \<Longrightarrow>
     fields_from cur (w @ r) = fields_from (cur @ w) r"
proof (induction w arbitrary: cur)
  case Nil
  then show ?case by simp
next
  case (Cons c w)
  from Cons.prems have head: "space_width (c # w @ r) = 0" by auto
  have "\<forall>i<length w. space_width (drop i (w @ r)) = 0"
  proof (intro allI impI)
    fix i assume "i < length w"
    then have "Suc i < length (c # w)" by simp
    with Cons.prems have "space_width (drop (Suc i) ((c # w) @ r)) = 0" by blast
    then show "space_width (drop i (w @ r)) = 0" by simp
  qed
  from Cons.IH [OF this, of "cur @ [c]"] head show ?case
    by (simp del: space_width.simps)
qed

lemma token_then_blank:
  assumes "\<not> has_space w"
  shows "\<forall>i<length w. space_width (drop i (w @ CHR '' '' # r)) = 0"
proof (intro allI impI)
  fix i assume i: "i < length w"
  with assms have "space_width (drop i w) = 0" by (auto simp: has_space_iff)
  moreover from i have "drop i w \<noteq> []" by simp
  ultimately have "space_width (drop i w @ CHR '' '' # r) = 0"
    by (rule space_width_before_blank [rotated])
  with i show "space_width (drop i (w @ CHR '' '' # r)) = 0" by simp
qed

lemma token_at_end:
  assumes "\<not> has_space w"
  shows "\<forall>i<length w. space_width (drop i (w @ [])) = 0"
  using assms by (auto simp: has_space_iff)

lemma Fields_Join:
  "\<forall>w\<in>set ws. w \<noteq> [] \<and> \<not> has_space w \<Longrightarrow> fields_from [] (Join ws '' '') = ws"
proof (induction ws "'' ''" rule: Join.induct)
  case 1
  then show ?case by simp
next
  case (2 x)
  then have "fields_from [] (x @ []) = fields_from ([] @ x) []"
    by (intro fields_from_run token_at_end) simp
  with 2 show ?case by simp
next
  case (3 x y ys)
  then have x: "x \<noteq> []" "\<not> has_space x" by simp_all
  have "fields_from [] (x @ CHR '' '' # Join (y # ys) '' '')
          = fields_from ([] @ x) (CHR '' '' # Join (y # ys) '' '')"
    by (intro fields_from_run token_then_blank x)
  also have "\<dots> = x # fields_from [] (Join (y # ys) '' '')"
    using x(1) by (simp add: space_width_blank del: space_width.simps Join.simps)
  also have "fields_from [] (Join (y # ys) '' '') = y # ys"
    using 3 by simp
  finally show ?case by simp
qed

lemma Fields_idempotent: "Fields (Join (Fields s) '' '') = Fields s"
  using Fields_Join [OF Fields_tokens [of s]] by (simp add: Fields_def)

subsection \<open>The rewrite of the query of a rule\<close>

lemma indexOf_from_absent: "element \<notin> set data \<Longrightarrow> indexOf_from k element data = - 1"
  by (induction data arbitrary: k) auto

lemma indexOf_from_first:
  "element \<notin> set pre \<Longrightarrow>
     indexOf_from k element (pre @ element # rest) = int (k + length pre)"
  by (induction pre arbitrary: k) auto

lemma indexOf_from_range: "- 1 \<le> indexOf_from k element data"
  by (induction data arbitrary: k) auto

lemma indexOf_absent: "element \<notin> set data \<Longrightarrow> indexOf element data = - 1"
  by (simp add: indexOf_def indexOf_from_absent)

lemma indexOf_first:
  "element \<notin> set pre \<Longrightarrow> indexOf element (pre @ element # rest) = int (length pre)"
  by (simp add: indexOf_def indexOf_from_first)

lemma rewrite_after_from:
  assumes "Fields (SQL rule) = pre @ ''from'' # w # post" and "''from'' \<notin> set pre"
  shows "rewrite ui rule
           = Inr (rule\<lparr>ID := prepend ui (ID rule),
                      SQL := Join (pre @ ''from'' # prepend ui w # post) '' ''\<rparr>)"
proof -
  have idx: "indexOf ''from'' (pre @ ''from'' # w # post) = int (length pre)"
    using assms(2) by (simp add: indexOf_first)
  have n: "nat (int (length pre) + 1) = Suc (length pre)"
    by simp
  have upd: "(pre @ ''from'' # w # post)[Suc (length pre) := prepend ui w]
               = pre @ ''from'' # prepend ui w # post"
    by (simp add: list_update_append)
  have nth: "(pre @ ''from'' # w # post) ! Suc (length pre) = w"
    by (simp add: nth_append)
  show ?thesis
    using assms(1) by (simp add: rewrite_def Let_def idx n upd nth)
qed

lemma rewrite_from_last:
  assumes "Fields (SQL rule) = pre @ [''from'']" and "''from'' \<notin> set pre"
  shows "rewrite ui rule = Inl IndexOutOfRange"
proof -
  have "indexOf ''from'' (pre @ [''from'']) = int (length pre)"
    using assms(2) indexOf_first [of "''from''" pre "[]"] by simp
  then show ?thesis
    using assms(1) by (simp add: rewrite_def Let_def)
qed

lemma rewrite_no_from:
  assumes "Fields (SQL rule) = w # ws" and "''from'' \<notin> set (w # ws)"
  shows "rewrite ui rule
           = Inr (rule\<lparr>ID := prepend ui (ID rule), SQL := Join (prepend ui w # ws) '' ''\<rparr>)"
proof -
  have "indexOf ''from'' (w # ws) = - 1"
    using assms(2) indexOf_absent [of "''from''" "w # ws"] by simp
  then show ?thesis
    using assms(1) by (simp add: rewrite_def Let_def)
qed

lemma rewrite_no_words:
  assumes "Fields (SQL rule) = []"
  shows "rewrite ui rule = Inl IndexOutOfRange"
  using assms by (simp add: rewrite_def indexOf_def)

lemma CreateRule_past_checks:
  "auth_Identify re token = Some ui \<Longrightarrow> Actions rule = a # acts \<Longrightarrow>
   sdk_Channel re (Channel (Mainflux a)) token \<Longrightarrow>
     CreateRule re token rule
       = (case rewrite ui rule of
            Inl f \<Rightarrow> ([], Inl f)
          | Inr rule' \<Rightarrow>
              send re ''POST'' (host @ ''/rules'') (JsonRule rule') ''Create rule'' 201)"
  by (simp add: CreateRule_def split: sum.splits)

lemma CreateRule_sends_rewritten:
  "fst (CreateRule re token rule) \<noteq> [] \<Longrightarrow>
     \<exists>ui rule'. auth_Identify re token = Some ui \<and> rewrite ui rule = Inr rule'
       \<and> fst (CreateRule re token rule)
           = [\<lparr>Method = ''POST'', URL = host @ ''/rules'', Payload = JsonRule rule'\<rparr>]"
  by (auto simp: CreateRule_def send_def Let_def
      split: option.splits list.splits if_splits sum.splits)

lemma rewrite_shape:
  "rewrite ui rule = Inr rule' \<Longrightarrow>
     nat (indexOf ''from'' (Fields (SQL rule)) + 1) < length (Fields (SQL rule))
     \<and> SQL rule' = Join ((Fields (SQL rule))
          [nat (indexOf ''from'' (Fields (SQL rule)) + 1)
             := prepend ui (Fields (SQL rule) ! nat (indexOf ''from'' (Fields (SQL rule)) + 1))])
          '' ''
     \<and> ID rule' = prepend ui (ID rule) \<and> Actions rule' = Actions rule"
  by (auto simp: rewrite_def Let_def split: if_splits)

lemma Join_update_length:
  "i < length ws \<Longrightarrow>
     length (Join (ws[i := p @ ws ! i]) sep) = length (Join ws sep) + length p"
proof (induction ws sep arbitrary: i rule: Join.induct)
  case (1 sep)
  then show ?case by simp
next
  case (2 x sep)
  then show ?case by simp
next
  case (3 x y ys sep)
  show ?case
  proof (cases i)
    case 0
    then show ?thesis by simp
  next
    case (Suc j)
    with 3 have "j < length (y # ys)" by simp
    from "3.IH" [OF this] Suc show ?thesis
      by (cases j) auto
  qed
qed

lemma rewrite_changes_query:
  assumes "rewrite ui rule = Inr rule'"
  shows "SQL rule' \<noteq> Join (Fields (SQL rule)) '' ''"
proof -
  let ?ws = "Fields (SQL rule)"
  let ?i = "nat (indexOf ''from'' ?ws + 1)"
  from rewrite_shape [OF assms] have i: "?i < length ?ws"
    and q: "SQL rule' = Join (?ws[?i := prepend ui (?ws ! ?i)]) '' ''"
    by simp_all
  have "length (SQL rule') = length (Join ?ws '' '') + length (prefix ui)"
    unfolding q prepend_def using Join_update_length [OF i] by simp
  moreover have "0 < length (prefix ui)"
    using prefix_nonempty [of ui] by simp
  ultimately show ?thesis by auto
qed

lemma CreateRule_requests:
  "auth_Identify re token = Some ui \<Longrightarrow> Actions rule = a # acts \<Longrightarrow>
   sdk_Channel re (Channel (Mainflux a)) token \<Longrightarrow> rewrite ui rule = Inr rule' \<Longrightarrow>
   http_NewRequest re ''POST'' (host @ ''/rules'') = None \<Longrightarrow>
     fst (CreateRule re token rule)
       = [\<lparr>Method = ''POST'', URL = host @ ''/rules'', Payload = JsonRule rule'\<rparr>]"
  by (simp add: CreateRule_past_checks send_requests)

lemma CreateRule_panics:
  "auth_Identify re token = Some ui \<Longrightarrow> Actions rule = a # acts \<Longrightarrow>
   sdk_Channel re (Channel (Mainflux a)) token \<Longrightarrow> rewrite ui rule = Inl f \<Longrightarrow>
     CreateRule re token rule = ([], Inl f)"
  by (simp add: CreateRule_past_checks)

text \<open>
  C2, as stated, fails when \<^verbatim>\<open>from\<close> is the last word of the query: no word follows
  it, the index after it is the length of the slice, and reading \<^verbatim>\<open>words[idx]\<close>
  panics. Nothing is sent.
\<close>

theorem from_as_last_token_counterexample:
  "''from'' \<in> set (Fields (SQL (example_rule ''select * from'')))
   \<and> CreateRule (example_env \<lparr>StatusCode = 201, Body = Inr []\<rparr>) ''token''
         (example_rule ''select * from'')
       = ([], Inl IndexOutOfRange)"
  by (simp add: CreateRule_def rewrite_def example_env_def example_rule_def Fields_def
      space1_def space2_def space3_def byte_def indexOf_def)

text \<open>
  C2, amended: for every rule whose query splits into words among which the first
  \<^verbatim>\<open>from\<close> (case-sensitive) is followed by a word, lines 253 to 257 of
  \<^verbatim>\<open>CreateRule\<close> replace exactly that word by its namespaced form (the caller's prefix
  prepended) and leave every other word as it is; the query of the rule sent to the
  engine, once the checks of \<^verbatim>\<open>CreateRule\<close> have passed and the request can be built, is
  these words joined with single spaces.
\<close>

theorem token_after_from_namespaced:
  "Fields (SQL rule) = pre @ ''from'' # w # post \<Longrightarrow> ''from'' \<notin> set pre \<Longrightarrow>
     rewrite ui rule
       = Inr (rule\<lparr>ID := prepend ui (ID rule),
                  SQL := Join (pre @ ''from'' # prepend ui w # post) '' ''\<rparr>)
     \<and> (auth_Identify re token = Some ui \<longrightarrow> Actions rule = a # acts \<longrightarrow>
          sdk_Channel re (Channel (Mainflux a)) token \<longrightarrow>
          http_NewRequest re ''POST'' (host @ ''/rules'') = None \<longrightarrow>
          fst (CreateRule re token rule)
            = [\<lparr>Method = ''POST'', URL = host @ ''/rules'',
                 Payload = JsonRule (rule\<lparr>ID := prepend ui (ID rule),
                   SQL := Join (pre @ ''from'' # prepend ui w # post) '' ''\<rparr>)\<rparr>])"
  using rewrite_after_from [of rule pre w post ui]
  by (simp add: CreateRule_requests)

theorem token_after_from_namespaced_witness:
  "Fields (SQL (example_rule ''select  a from t1 , from t2'')) 
     = [''select'', ''a''] @ ''from'' # ''t1'' # ['','', ''from'', ''t2'']
   \<and> ''from'' \<notin> set [''select'', ''a'']
   \<and> rewrite ''ab-cd'' (example_rule ''select  a from t1 , from t2'')
       = Inr ((example_rule ''select  a from t1 , from t2'')
               \<lparr>ID := ''abcd_r1'', SQL := ''select a from abcd_t1 , from t2''\<rparr>)
   \<and> fst (CreateRule (example_env \<lparr>StatusCode = 201, Body = Inr []\<rparr>) ''token''
             (example_rule ''select  a from t1 , from t2''))
       = [\<lparr>Method = ''POST'', URL = host @ ''/rules'',
            Payload = JsonRule ((example_rule ''select  a from t1 , from t2'')
               \<lparr>ID := ''abcd_r1'', SQL := ''select a from abcd_t1 , from t2''\<rparr>)\<rparr>]"
proof -
  have f: "Fields (SQL (example_rule ''select  a from t1 , from t2''))
     = [''select'', ''a''] @ ''from'' # ''t1'' # ['','', ''from'', ''t2'']"
    by (simp add: example_rule_def Fields_def space1_def space2_def space3_def byte_def)
  have n: "''from'' \<notin> set [''select'', ''a'']" by simp
  have p: "prepend ''ab-cd'' ''t1'' = ''abcd_t1''" "prepend ''ab-cd'' ''r1'' = ''abcd_r1''"
    by (simp_all add: prepend_def prefix_def ReplaceAll_def Replace_def HasPrefix_def)
  show ?thesis
    using token_after_from_namespaced [OF f n, of "''ab-cd''"
        "example_env \<lparr>StatusCode = 201, Body = Inr []\<rparr>" "''token''"
        "\<lparr>Mainflux = \<lparr>Channel = ''chan''\<rparr>\<rparr>" "[]"] f p
    by (simp add: example_env_def example_rule_def)
qed

text \<open>
  C9: for every rule whose query splits into a non-empty list of words none of which is
  \<^verbatim>\<open>from\<close>, \<^verbatim>\<open>indexOf\<close> returns -1, the index rewritten is 0, and
  \<^verbatim>\<open>CreateRule\<close> prepends the caller's prefix to the first word of the query, in the
  rewrite of lines 253 to 257 and so in the rule it sends once its checks have passed.
  For a rule whose query splits into no word at all, the rewrite indexes out of range:
  the operation panics and sends nothing.
\<close>

theorem no_from_first_token_namespaced:
  "(''from'' \<notin> set (Fields (SQL rule)) \<longrightarrow> indexOf ''from'' (Fields (SQL rule)) = - 1)
   \<and> (Fields (SQL rule) = w # ws \<longrightarrow> ''from'' \<notin> set (w # ws) \<longrightarrow>
        rewrite ui rule
          = Inr (rule\<lparr>ID := prepend ui (ID rule), SQL := Join (prepend ui w # ws) '' ''\<rparr>)
        \<and> (auth_Identify re token = Some ui \<longrightarrow> Actions rule = a # acts \<longrightarrow>
             sdk_Channel re (Channel (Mainflux a)) token \<longrightarrow>
             http_NewRequest re ''POST'' (host @ ''/rules'') = None \<longrightarrow>
             fst (CreateRule re token rule)
               = [\<lparr>Method = ''POST'', URL = host @ ''/rules'',
                    Payload = JsonRule (rule\<lparr>ID := prepend ui (ID rule),
                      SQL := Join (prepend ui w # ws) '' ''\<rparr>)\<rparr>]))
   \<and> (Fields (SQL rule) = [] \<longrightarrow>
        rewrite ui rule = Inl IndexOutOfRange
        \<and> (auth_Identify re token = Some ui \<longrightarrow> Actions rule = a # acts \<longrightarrow>
             sdk_Channel re (Channel (Mainflux a)) token \<longrightarrow>
             CreateRule re token rule = ([], Inl IndexOutOfRange)))"
  using rewrite_no_from [of rule w ws ui] rewrite_no_words [of rule ui]
    indexOf_absent [of "''from''" "Fields (SQL rule)"]
  by (simp add: CreateRule_requests CreateRule_panics)

theorem no_from_first_token_namespaced_witness:
  "Fields (SQL (example_rule ''select * FROM t'')) = [''select'', ''*'', ''FROM'', ''t'']
   \<and> ''from'' \<notin> set [''select'', ''*'', ''FROM'', ''t'']
   \<and> indexOf ''from'' [''select'', ''*'', ''FROM'', ''t''] = - 1
   \<and> fst (CreateRule (example_env \<lparr>StatusCode = 201, Body = Inr []\<rparr>) ''token''
             (example_rule ''select * FROM t''))
       = [\<lparr>Method = ''POST'', URL = host @ ''/rules'',
            Payload = JsonRule ((example_rule ''select * FROM t'')
               \<lparr>ID := ''abcd_r1'', SQL := ''abcd_select * FROM t''\<rparr>)\<rparr>]
   \<and> Fields (SQL (example_rule ''  '')) = []
   \<and> CreateRule (example_env \<lparr>StatusCode = 201, Body = Inr []\<rparr>) ''token'' (example_rule ''  '')
       = ([], Inl IndexOutOfRange)"
proof -
  have f: "Fields (SQL (example_rule ''select * FROM t'')) = [''select'', ''*'', ''FROM'', ''t'']"
    "Fields (SQL (example_rule ''  '')) = []"
    by (simp_all add: example_rule_def Fields_def space1_def space2_def space3_def byte_def)
  have p: "prepend ''ab-cd'' ''select'' = ''abcd_select''" "prepend ''ab-cd'' ''r1'' = ''abcd_r1''"
    by (simp_all add: prepend_def prefix_def ReplaceAll_def Replace_def HasPrefix_def)
  show ?thesis
    using no_from_first_token_namespaced [of "example_rule ''select * FROM t''"
        "''select''" "[''*'', ''FROM'', ''t'']" "''ab-cd''"
        "example_env \<lparr>StatusCode = 201, Body = Inr []\<rparr>" "''token''"
        "\<lparr>Mainflux = \<lparr>Channel = ''chan''\<rparr>\<rparr>" "[]"]
      no_from_first_token_namespaced [of "example_rule ''  ''"
        "''select''" "[''*'', ''FROM'', ''t'']" "''ab-cd''"
        "example_env \<lparr>StatusCode = 201, Body = Inr []\<rparr>" "''token''"
        "\<lparr>Mainflux = \<lparr>Channel = ''chan''\<rparr>\<rparr>" "[]"] f p
    by (simp add: example_env_def example_rule_def)
qed

text \<open>
  C10, as stated, fails: the query sent is never just the words of the original query
  joined again, because one word always carries the caller's prefix. The query
  \<^verbatim>\<open>select  a\<close> has no \<^verbatim>\<open>from\<close> and is sent as \<^verbatim>\<open>abcd_select a\<close>, not as
  \<^verbatim>\<open>select a\<close>.
\<close>

theorem query_only_rejoined_counterexample:
  "Join (Fields (SQL (example_rule ''select  a''))) '' '' = ''select a''
   \<and> fst (CreateRule (example_env \<lparr>StatusCode = 201, Body = Inr []\<rparr>) ''token''
             (example_rule ''select  a''))
       = [\<lparr>Method = ''POST'', URL = host @ ''/rules'',
            Payload = JsonRule ((example_rule ''select  a'')
               \<lparr>ID := ''abcd_r1'', SQL := ''abcd_select a''\<rparr>)\<rparr>]"
  by (simp add: CreateRule_def rewrite_def send_def result_def example_env_def example_rule_def
      Fields_def space1_def space2_def space3_def byte_def indexOf_def
      prepend_def prefix_def ReplaceAll_def Replace_def HasPrefix_def)

text \<open>
  C10, amended: whenever \<^verbatim>\<open>CreateRule\<close> sends a request, the query in it is the words
  of the original query, split at white space, with the one word at the index after the
  first \<^verbatim>\<open>from\<close> (index 0 when there is none) carrying the caller's prefix, joined with
  single spaces; it always differs from the plain re-joining of the words. Every word
  is non-empty and free of white space, so every run of white space in the caller's
  query, at its start and end too, becomes one space between two words or nothing, and
  the re-joined words split into the same words again.
\<close>

theorem query_rejoined_with_single_spaces:
  "(rewrite ui rule = Inr rule' \<longrightarrow>
      nat (indexOf ''from'' (Fields (SQL rule)) + 1) < length (Fields (SQL rule))
      \<and> SQL rule' = Join ((Fields (SQL rule))
           [nat (indexOf ''from'' (Fields (SQL rule)) + 1)
              := prepend ui (Fields (SQL rule) ! nat (indexOf ''from'' (Fields (SQL rule)) + 1))])
           '' ''
      \<and> SQL rule' \<noteq> Join (Fields (SQL rule)) '' '')
   \<and> (fst (CreateRule re token rule) \<noteq> [] \<longrightarrow>
        (\<exists>ui rule'. auth_Identify re token = Some ui \<and> rewrite ui rule = Inr rule'
           \<and> fst (CreateRule re token rule)
               = [\<lparr>Method = ''POST'', URL = host @ ''/rules'', Payload = JsonRule rule'\<rparr>]))
   \<and> (\<forall>w\<in>set (Fields (SQL rule)). w \<noteq> [] \<and> \<not> has_space w)
   \<and> Fields (Join (Fields (SQL rule)) '' '') = Fields (SQL rule)"
  using rewrite_shape [of ui rule rule'] rewrite_changes_query [of ui rule rule']
    CreateRule_sends_rewritten [of re token rule] Fields_tokens [of "SQL rule"]
    Fields_idempotent [of "SQL rule"]
  by (simp del: space_width.simps has_space.simps)

theorem query_rejoined_with_single_spaces_witness:
  "Fields (SQL (example_rule ''  select   a  from t1  '')) = [''select'', ''a'', ''from'', ''t1'']
   \<and> rewrite ''ab-cd'' (example_rule ''  select   a  from t1  '')
       = Inr ((example_rule ''  select   a  from t1  '')
               \<lparr>ID := ''abcd_r1'', SQL := ''select a from abcd_t1''\<rparr>)
   \<and> ''select a from abcd_t1'' \<noteq> Join [''select'', ''a'', ''from'', ''t1''] '' ''
   \<and> fst (CreateRule (example_env \<lparr>StatusCode = 201, Body = Inr []\<rparr>) ''token''
             (example_rule ''  select   a  from t1  ''))
       = [\<lparr>Method = ''POST'', URL = host @ ''/rules'',
            Payload = JsonRule ((example_rule ''  select   a  from t1  '')
               \<lparr>ID := ''abcd_r1'', SQL := ''select a from abcd_t1''\<rparr>)\<rparr>]
   \<and> \<not> has_space ''select'' \<and> \<not> has_space ''a'' \<and> \<not> has_space ''from'' \<and> \<not> has_space ''t1''
   \<and> Fields ''select a from t1'' = [''select'', ''a'', ''from'', ''t1'']"
proof -
  have f: "Fields (SQL (example_rule ''  select   a  from t1  ''))
      = [''select'', ''a'', ''from'', ''t1'']"
    by (simp add: example_rule_def Fields_def space1_def space2_def space3_def byte_def)
  have r: "rewrite ''ab-cd'' (example_rule ''  select   a  from t1  '')
       = Inr ((example_rule ''  select   a  from t1  '')
               \<lparr>ID := ''abcd_r1'', SQL := ''select a from abcd_t1''\<rparr>)"
    by (simp add: rewrite_def example_rule_def Fields_def space1_def space2_def space3_def
        byte_def indexOf_def prepend_def prefix_def ReplaceAll_def Replace_def HasPrefix_def)
  have c: "fst (CreateRule (example_env \<lparr>StatusCode = 201, Body = Inr []\<rparr>) ''token''
             (example_rule ''  select   a  from t1  ''))
       = [\<lparr>Method = ''POST'', URL = host @ ''/rules'',
            Payload = JsonRule ((example_rule ''  select   a  from t1  '')
               \<lparr>ID := ''abcd_r1'', SQL := ''select a from abcd_t1''\<rparr>)\<rparr>]"
    using r by (simp add: CreateRule_def send_def result_def example_env_def example_rule_def)
  have ne: "''select a from abcd_t1'' \<noteq> Join [''select'', ''a'', ''from'', ''t1''] '' ''"
    by simp
  have hs: "\<not> has_space ''select''" "\<not> has_space ''a''" "\<not> has_space ''from''"
    "\<not> has_space ''t1''"
    by (simp_all add: space1_def space2_def space3_def byte_def)
  have fj: "Fields ''select a from t1'' = [''select'', ''a'', ''from'', ''t1'']"
    by (simp add: Fields_def space1_def space2_def space3_def byte_def)
  show ?thesis
    using query_rejoined_with_single_spaces [of "''ab-cd''"
        "example_rule ''  select   a  from t1  ''"
        "(example_rule ''  select   a  from t1  '')
               \<lparr>ID := ''abcd_r1'', SQL := ''select a from abcd_t1''\<rparr>"
        "example_env \<lparr>StatusCode = 201, Body = Inr []\<rparr>" "''token''"]
    by (simp only: f r ne c hs fj simp_thms)
qed

end
